theory Spec2Isabelle
  imports Main "HOL-Library.Sublist"
begin

section \<open>JavaScript strings\<close>

text \<open>
  A JavaScript string is modelled as a HOL \<open>string\<close>; one HOL character stands for one
  UTF-16 code unit in the range 0 to 255.  The functions below are the string methods
  that \<open>main.ts\<close> calls: \<open>trim\<close>, \<open>split\<close>, \<open>join\<close> and \<open>includes\<close>.
\<close>

definition js_whitespace :: "char \<Rightarrow> bool" where
  \<comment> \<open>White space and line terminators of ECMAScript below code unit 256:
      TAB, LF, VT, FF, CR, SPACE and NO-BREAK SPACE.\<close>
  "js_whitespace c =
     (c = CHR 0x09 \<or> c = CHR 0x0A \<or> c = CHR 0x0B \<or> c = CHR 0x0C \<or> c = CHR 0x0D
      \<or> c = CHR 0x20 \<or> c = CHR 0xA0)"

definition js_trim :: "string \<Rightarrow> string" where
  \<comment> \<open>\<open>s.trim()\<close>\<close>
  "js_trim s = rev (dropWhile js_whitespace (rev (dropWhile js_whitespace s)))"

function split_scan :: "string \<Rightarrow> string \<Rightarrow> string \<Rightarrow> string list" where
  \<comment> \<open>The scan of \<open>String.prototype.split\<close> for a non-empty separator: \<open>piece\<close> holds the
      characters read since the last match; matches are taken leftmost first and do
      not overlap.\<close>
  "split_scan sep piece [] = [piece]"
| "split_scan sep piece (c # cs) =
     (if sep \<noteq> [] \<and> prefix sep (c # cs)
      then piece # split_scan sep [] (drop (length sep) (c # cs))
      else split_scan sep (piece @ [c]) cs)"
  by pat_completeness auto
termination
  by (relation "measure (\<lambda>(sep, piece, s). length s)") auto

definition js_split :: "string \<Rightarrow> string \<Rightarrow> string list" where
  \<comment> \<open>\<open>s.split(sep)\<close>; an empty separator splits into single code units.\<close>
  "js_split s sep = (if sep = [] then map (\<lambda>c. [c]) s else split_scan sep [] s)"

fun js_join :: "string \<Rightarrow> string list \<Rightarrow> string" where
  \<comment> \<open>\<open>parts.join(sep)\<close>, for an array of strings\<close>
  "js_join sep [] = []"
| "js_join sep (x # xs) = (if xs = [] then x else x @ sep @ js_join sep xs)"

definition js_includes :: "string \<Rightarrow> string \<Rightarrow> bool" where
  \<comment> \<open>\<open>s.includes(t)\<close>: \<open>t\<close> occurs in \<open>s\<close> as a contiguous run\<close>
  "js_includes s t = sublist t s"

fun js_indexOf :: "string \<Rightarrow> string \<Rightarrow> nat option" where
  \<comment> \<open>\<open>s.indexOf(t)\<close>, with \<open>None\<close> for -1.  The program does not call it; it names the
      position of the first occurrence in the statements below.\<close>
  "js_indexOf [] t = (if t = [] then Some 0 else None)"
| "js_indexOf (c # cs) t =
     (if prefix t (c # cs) then Some 0 else map_option Suc (js_indexOf cs t))"

section \<open>Errors\<close>

datatype error =
    SyntaxError   \<comment> \<open>thrown by \<open>JSON.parse\<close>\<close>
  | TypeError     \<comment> \<open>property access on \<open>null\<close> or \<open>undefined\<close>, call of a non-function,
                      argument of the wrong type\<close>
  | IOError       \<comment> \<open>thrown or rejected by \<open>fs\<close>, \<open>proper-lockfile\<close> or the vault\<close>

section \<open>The document merge\<close>

text \<open>
  Lines 172 and 173 of \<open>main.ts\<close>:
  \<^verbatim>\<open>const [header, ...rest] = currentContent.split('---');\<close>
  \<^verbatim>\<open>const newContent = `${header.trim()}\n\n---\n\n${answerContent}${rest.join('---').trim()}`;\<close>
  Destructuring an empty array leaves \<open>header\<close> undefined, and \<open>header.trim()\<close>
  then throws a TypeError.
\<close>

definition newContent :: "string \<Rightarrow> string \<Rightarrow> error + string" where
  "newContent currentContent answerContent =
     (case js_split currentContent ''---'' of
        [] \<Rightarrow> Inl TypeError
      | header # rest \<Rightarrow>
          Inr (js_trim header @ ''\<newline>\<newline>---\<newline>\<newline>'' @ answerContent
               @ js_trim (js_join ''---'' rest)))"

definition header_region :: "string \<Rightarrow> string" where
  \<comment> \<open>The header of the specification: the content before the first occurrence of the
      delimiter, the whole text when the delimiter does not occur.\<close>
  "header_region text =
     (case js_indexOf text ''---'' of None \<Rightarrow> text | Some i \<Rightarrow> take i text)"

section \<open>JSON values and JSON files\<close>

datatype json =
    JNull
  | JBool bool
  | JNumber string  \<comment> \<open>a number, held as the text JavaScript prints for it (\<open>String(n)\<close>);
                        both zeros print as \<open>0\<close>\<close>
  | JString string
  | JArray "json list"
  | JObject "(string \<times> json) list"  \<comment> \<open>members in insertion order\<close>

text \<open>
  The text of a JSON file as \<open>JSON.parse\<close> sees it: the empty text, a non-empty text
  that \<open>JSON.parse\<close> rejects, or a text that \<open>JSON.parse\<close> reads as the given value.
  \<open>JSON.stringify\<close> of a value that came from \<open>JSON.parse\<close> is a text of the last kind;
  it reads back as the same value, except that a number too large for a double, which
  \<open>JSON.parse\<close> reads as an infinity, is written as \<open>null\<close>.
\<close>

datatype file_text = EmptyText | Malformed | Json json

definition JSON_parse :: "file_text \<Rightarrow> error + json" where
  "JSON_parse t = (case t of Json v \<Rightarrow> Inr v | _ \<Rightarrow> Inl SyntaxError)"

fun finite_json :: "json \<Rightarrow> json" where
  \<comment> \<open>the value with \<open>null\<close> in place of every infinite number\<close>
  "finite_json (JNumber n) = (if n = ''Infinity'' \<or> n = ''-Infinity'' then JNull else JNumber n)"
| "finite_json (JArray xs) = JArray (map finite_json xs)"
| "finite_json (JObject kvs) = JObject (map (\<lambda>(k, v). (k, finite_json v)) kvs)"
| "finite_json v = v"

definition JSON_stringify :: "json \<Rightarrow> file_text" where
  "JSON_stringify v = Json (finite_json v)"

definition js_truthy :: "json option \<Rightarrow> bool" where
  \<comment> \<open>ToBoolean; \<open>None\<close> is \<open>undefined\<close>, the value of a member that is absent\<close>
  "js_truthy v =
     (case v of
        None \<Rightarrow> False
      | Some JNull \<Rightarrow> False
      | Some (JBool b) \<Rightarrow> b
      | Some (JNumber n) \<Rightarrow> n \<noteq> ''0''
      | Some (JString s) \<Rightarrow> s \<noteq> []
      | Some (JArray xs) \<Rightarrow> True
      | Some (JObject kvs) \<Rightarrow> True)"

definition js_or :: "json option \<Rightarrow> json \<Rightarrow> json" where
  \<comment> \<open>\<open>v || d\<close>\<close>
  "js_or v d = (case v of Some x \<Rightarrow> (if js_truthy v then x else d) | None \<Rightarrow> d)"

fun js_toString :: "json \<Rightarrow> error + string"
  and js_toStrings :: "json list \<Rightarrow> error + string list" where
  \<comment> \<open>ToString, as a template literal applies it.  An array prints its elements joined
      by commas, \<open>null\<close> as the empty string.  An object prints through the \<open>toString\<close>
      it inherits; when it holds a member of that name, which read from JSON is never
      a function, no conversion is left (the inherited \<open>valueOf\<close> returns the object)
      and a TypeError is thrown.\<close>
  "js_toString JNull = Inr ''null''"
| "js_toString (JBool b) = Inr (if b then ''true'' else ''false'')"
| "js_toString (JNumber n) = Inr n"
| "js_toString (JString s) = Inr s"
| "js_toString (JArray xs) =
     (case js_toStrings xs of Inl e \<Rightarrow> Inl e | Inr parts \<Rightarrow> Inr (js_join '','' parts))"
| "js_toString (JObject kvs) =
     (if map_of kvs ''toString'' = None then Inr ''[object Object]'' else Inl TypeError)"
| "js_toStrings [] = Inr []"
| "js_toStrings (x # xs) =
     (case (if x = JNull then Inr [] else js_toString x) of
        Inl e \<Rightarrow> Inl e
      | Inr part \<Rightarrow>
          (case js_toStrings xs of Inl e \<Rightarrow> Inl e | Inr parts \<Rightarrow> Inr (part # parts)))"

definition js_get :: "json \<Rightarrow> string \<Rightarrow> error + json option" where
  \<comment> \<open>\<open>v.key\<close> for the keys read from the response, \<open>answer\<close> and \<open>sources\<close>, which no
      built-in prototype supplies: only \<open>null\<close> throws, and only an object can hold
      the member.\<close>
  "js_get v key =
     (case v of JNull \<Rightarrow> Inl TypeError | JObject kvs \<Rightarrow> Inr (map_of kvs key) | _ \<Rightarrow> Inr None)"

fun assign :: "string \<Rightarrow> json \<Rightarrow> (string \<times> json) list \<Rightarrow> (string \<times> json) list" where
  "assign key v [] = [(key, v)]"
| "assign key v ((k, w) # kvs) = (if k = key then (k, v) # kvs else (k, w) # assign key v kvs)"

definition js_set :: "json \<Rightarrow> string \<Rightarrow> json \<Rightarrow> error + json" where
  \<comment> \<open>\<open>target.key = v\<close> in strict mode (a class body), for a key that is not an array
      index: \<open>null\<close> and primitives throw; an array takes the property, which
      \<open>JSON.stringify\<close> then leaves out.\<close>
  "js_set target key v =
     (case target of
        JObject kvs \<Rightarrow> Inr (JObject (assign key v kvs))
      | JArray xs \<Rightarrow> Inr (JArray xs)
      | _ \<Rightarrow> Inl TypeError)"

fun js_map :: "('a \<Rightarrow> error + 'b) \<Rightarrow> 'a list \<Rightarrow> error + 'b list" where
  \<comment> \<open>\<open>items.map(f)\<close> where \<open>f\<close> may throw: the first throw ends the map\<close>
  "js_map f [] = Inr []"
| "js_map f (x # xs) =
     (case f x of
        Inl e \<Rightarrow> Inl e
      | Inr y \<Rightarrow> (case js_map f xs of Inl e \<Rightarrow> Inl e | Inr ys \<Rightarrow> Inr (y # ys)))"

function decimal :: "nat \<Rightarrow> string" where
  \<comment> \<open>how a template literal prints a non-negative integer\<close>
  "decimal n =
     (if n < 10 then [char_of (48 + n)] else decimal (n div 10) @ [char_of (48 + n mod 10)])"
  by pat_completeness auto
termination
  by (relation "measure (\<lambda>n. n)") auto

declare decimal.simps [simp del]

section \<open>The platform\<close>

text \<open>
  \<open>path.basename\<close> and \<open>path.extname\<close> belong to Node.js and differ between
  platforms, so the program is modelled over any pair of them.  \<open>posix\<close> is the
  POSIX flavour: the last segment of the path, trailing slashes aside, and its
  extension from the last dot on, unless that dot opens the segment or the segment
  is \<open>..\<close>.  \<open>posix_basename\<close> follows the backward scan of Node.js also where the
  suffix does not end the segment: a suffix equal to the path leaves nothing, one equal
  to the segment is not taken off, and one that the segment only ends (or a path of
  slashes alone) leaves the path from the segment on, trailing slashes included.
\<close>

record platform =
  path_basename :: "string \<Rightarrow> string \<Rightarrow> string"
  path_extname :: "string \<Rightarrow> string"

definition posix_segment :: "string \<Rightarrow> string" where
  "posix_segment p =
     rev (takeWhile (\<lambda>c. c \<noteq> CHR ''/'') (dropWhile (\<lambda>c. c = CHR ''/'') (rev p)))"

definition posix_extname :: "string \<Rightarrow> string" where
  "posix_extname p =
     (let base = posix_segment p;
          stem = dropWhile (\<lambda>c. c \<noteq> CHR ''.'') (rev base)
      in if length stem \<le> 1 \<or> base = ''..'' then []
         else drop (length stem - 1) base)"

definition posix_basename :: "string \<Rightarrow> string \<Rightarrow> string" where
  "posix_basename p ext =
     (let base = posix_segment p;
          start = length (dropWhile (\<lambda>c. c = CHR ''/'') (rev p)) - length base
      in if ext = [] \<or> length p < length ext then base
         else if ext = p then []
         else if suffix ext base \<and> ext \<noteq> base then take (length base - length ext) base
         else if length base < length ext \<and> suffix base ext then drop start p
         else base)"

definition posix :: platform where
  "posix = \<lparr>path_basename = posix_basename, path_extname = posix_extname\<rparr>"

section \<open>The answer block\<close>

text \<open>Lines 159 to 169 of \<open>main.ts\<close>.\<close>

definition wiki_link :: "string \<Rightarrow> string" where
  \<comment> \<open>The template literal of line 165: a dash, a space, and the name between two
      opening and two closing square brackets.\<close>
  "wiki_link sourceName = ''- ['' @ ''['' @ sourceName @ '']'' @ '']''"

definition sourceLink :: "platform \<Rightarrow> json \<Rightarrow> error + string" where
  \<comment> \<open>The callback of \<open>sources.map\<close>; \<open>path.extname\<close> throws a TypeError on an item that
      is not a string.\<close>
  "sourceLink pf item =
     (case item of
        JString s \<Rightarrow> Inr (wiki_link (path_basename pf s (path_extname pf s)))
      | _ \<Rightarrow> Inl TypeError)"

definition sourcesText :: "platform \<Rightarrow> bool \<Rightarrow> json \<Rightarrow> error + string" where
  \<comment> \<open>\<open>sources.length > 0 ? sources.map(...).join("\n") : "- No sources found."\<close>
      An array has a length and \<open>map\<close>.  A string has a length but no \<open>map\<close>.  A boolean
      or a number has no length, and \<open>undefined > 0\<close> is false.  An object has the
      length it holds as a member, if any; JavaScript converts that member to a
      number, and \<open>len_positive\<close> tells whether the result exceeds 0; an object read
      from JSON never holds a function, so calling its \<open>map\<close> throws.\<close>
  "sourcesText pf len_positive sources =
     (case sources of
        JArray items \<Rightarrow>
          if length items > 0
          then (case js_map (sourceLink pf) items of
                  Inl e \<Rightarrow> Inl e
                | Inr links \<Rightarrow> Inr (js_join ''\<newline>'' links))
          else Inr ''- No sources found.''
      | JString s \<Rightarrow> if length s > 0 then Inl TypeError else Inr ''- No sources found.''
      | JObject kvs \<Rightarrow>
          (case map_of kvs ''length'' of
             None \<Rightarrow> Inr ''- No sources found.''
           | Some l \<Rightarrow> if len_positive then Inl TypeError else Inr ''- No sources found.'')
      | JNull \<Rightarrow> Inl TypeError
      | _ \<Rightarrow> Inr ''- No sources found.'')"

definition answerContent :: "platform \<Rightarrow> bool \<Rightarrow> string \<Rightarrow> json \<Rightarrow> error + string" where
  "answerContent pf len_positive question resultsData =
     (case js_get resultsData ''answer'' of
        Inl e \<Rightarrow> Inl e
      | Inr a \<Rightarrow>
     (case js_get resultsData ''sources'' of
        Inl e \<Rightarrow> Inl e
      | Inr s \<Rightarrow>
     (let answer = js_or a (JString ''No answer provided'');
          sources = js_or s (JArray [])
      in case sourcesText pf len_positive sources of
           Inl e \<Rightarrow> Inl e
         | Inr text \<Rightarrow>
             (case js_toString answer of
                Inl e \<Rightarrow> Inl e
              | Inr shown \<Rightarrow>
                  Inr (''## '' @ question @ ''\<newline>\<newline>'' @ shown
                       @ ''\<newline>\<newline>### Sources:\<newline>'' @ text
                       @ ''\<newline>\<newline>---\<newline>\<newline>'')))))"

section \<open>Effects\<close>

datatype path = rag_question_json | rag_results_json

text \<open>
  What a run does to the outside world, in order: the calls it makes to \<open>fs\<close>,
  \<open>proper-lockfile\<close>, the vault, \<open>Notice\<close>, \<open>console\<close> and \<open>setTimeout\<close>.  A call
  that throws or rejects is wrapped in \<open>Failed\<close>.  \<open>SetTimeout n d\<close> defers
  \<open>checkResults(n)\<close> by \<open>d\<close> milliseconds.
\<close>

datatype action =
    WriteFile path file_text
  | Lock path
  | Unlock path
  | Unlink path
  | VaultModify string
  | Notice string
  | ConsoleLog string
  | ConsoleError string "error option"
  | SetTimeout nat nat
  | RenderResultsWhenAvailable string
  | Failed action

definition invoked :: "action \<Rightarrow> action list \<Rightarrow> bool" where
  \<comment> \<open>the call was made, whether it returned or threw\<close>
  "invoked a acts = (a \<in> set acts \<or> Failed a \<in> set acts)"

definition notices :: "action list \<Rightarrow> string list" where
  \<comment> \<open>the messages shown to the user\<close>
  "notices acts = concat (map (\<lambda>a. case a of Notice m \<Rightarrow> [m] | _ \<Rightarrow> []) acts)"

definition modifications :: "action list \<Rightarrow> string list" where
  \<comment> \<open>the contents handed to \<open>vault.modify\<close>, failed calls included\<close>
  "modifications acts =
     concat (map (\<lambda>a. case a of VaultModify s \<Rightarrow> [s] | Failed (VaultModify s) \<Rightarrow> [s] | _ \<Rightarrow> [])
               acts)"

definition timers :: "action list \<Rightarrow> (nat \<times> nat) list" where
  \<comment> \<open>the deferred checks: retry count and delay\<close>
  "timers acts = concat (map (\<lambda>a. case a of SetTimeout n d \<Rightarrow> [(n, d)] | _ \<Rightarrow> []) acts)"

section \<open>The result poller\<close>

text \<open>
  What one call of \<open>checkResults\<close> meets outside the program: the response file, and
  whether each call that can fail does.
\<close>

record check_env =
  results_file :: "file_text option"  \<comment> \<open>\<open>None\<close>: \<open>fs.existsSync\<close> is false\<close>
  lock_fails :: bool
  read_fails :: bool                   \<comment> \<open>\<open>fs.readFileSync\<close> throws\<close>
  length_positive :: bool              \<comment> \<open>see \<open>sourcesText\<close>\<close>
  vault_read :: "error + string"       \<comment> \<open>the first \<open>vault.read(file)\<close>\<close>
  modify_fails :: bool
  vault_reread :: "string \<Rightarrow> error + string"
    \<comment> \<open>what \<open>vault.read(file)\<close> gives once \<open>vault.modify\<close> was handed the argument\<close>
  unlock_fails :: bool
  unlink_fails :: bool

record check_result =
  actions :: "action list"
  next_check :: "nat option"  \<comment> \<open>the retry count of the check deferred by \<open>setTimeout\<close>\<close>
  rejected :: "error option"  \<comment> \<open>the promise of the call is rejected\<close>

definition maxRetries :: nat where
  "maxRetries = 30"

definition retryInterval :: nat where
  "retryInterval = 2000"

definition found_try :: "platform \<Rightarrow> check_env \<Rightarrow> string \<Rightarrow> nat \<Rightarrow> check_result" where
  \<comment> \<open>The \<open>try\<close> block of lines 154 to 185; \<open>rejected\<close> holds what it throws.\<close>
  "found_try pf env question retryCount =
     (if lock_fails env
      then \<lparr>actions = [Failed (Lock rag_results_json)], next_check = None,
            rejected = Some IOError\<rparr>
      else if read_fails env
      then \<lparr>actions = [Lock rag_results_json], next_check = None, rejected = Some IOError\<rparr>
      else case results_file env of
        None \<Rightarrow>
          \<lparr>actions = [Lock rag_results_json], next_check = None, rejected = Some IOError\<rparr>
      | Some text \<Rightarrow>
     (case JSON_parse text of
        Inl e \<Rightarrow> \<lparr>actions = [Lock rag_results_json], next_check = None, rejected = Some e\<rparr>
      | Inr resultsData \<Rightarrow>
     (case answerContent pf (length_positive env) question resultsData of
        Inl e \<Rightarrow> \<lparr>actions = [Lock rag_results_json], next_check = None, rejected = Some e\<rparr>
      | Inr block \<Rightarrow>
     (case vault_read env of
        Inl e \<Rightarrow> \<lparr>actions = [Lock rag_results_json], next_check = None, rejected = Some e\<rparr>
      | Inr currentContent \<Rightarrow>
     (case newContent currentContent block of
        Inl e \<Rightarrow> \<lparr>actions = [Lock rag_results_json], next_check = None, rejected = Some e\<rparr>
      | Inr new \<Rightarrow>
     (if modify_fails env
      then \<lparr>actions = [Lock rag_results_json, Failed (VaultModify new)], next_check = None,
            rejected = Some IOError\<rparr>
      else case vault_reread env new of
        Inl e \<Rightarrow>
          \<lparr>actions = [Lock rag_results_json, VaultModify new], next_check = None,
           rejected = Some e\<rparr>
      | Inr updatedContent \<Rightarrow>
          if js_includes updatedContent block
          then \<lparr>actions = [Lock rag_results_json, VaultModify new,
                            ConsoleLog ''Content updated successfully.'',
                            Notice ''Response rendered successfully.''],
                next_check = None, rejected = None\<rparr>
          else \<lparr>actions = [Lock rag_results_json, VaultModify new,
                            ConsoleError ''Failed to verify content update.'' None,
                            Notice ''Failed to render the response. Retrying...'',
                            SetTimeout (retryCount + 1) retryInterval],
                next_check = Some (retryCount + 1), rejected = None\<rparr>))))))"

definition found_finally :: "check_env \<Rightarrow> action list \<times> error option" where
  \<comment> \<open>The \<open>finally\<close> block of lines 188 to 197: when \<open>unlock\<close> rejects, \<open>fs.unlink\<close> is not
      reached and the rejection leaves \<open>checkResults\<close>.\<close>
  "found_finally env =
     (if unlock_fails env then ([Failed (Unlock rag_results_json)], Some IOError)
      else if unlink_fails env
      then ([Unlock rag_results_json, Failed (Unlink rag_results_json),
             ConsoleError ''Error deleting file:'' (Some IOError)], None)
      else ([Unlock rag_results_json, Unlink rag_results_json,
             ConsoleLog ''Results file deleted successfully''], None))"

definition checkResults :: "platform \<Rightarrow> check_env \<Rightarrow> string \<Rightarrow> nat \<Rightarrow> check_result" where
  "checkResults pf env question retryCount =
     (if retryCount \<ge> maxRetries
      then \<lparr>actions = [ConsoleError ''Max retries reached. No results available.'' None,
                        Notice ''Failed to get results. Please try again.''],
            next_check = None, rejected = None\<rparr>
      else if results_file env \<noteq> None
      then (let t = found_try pf env question retryCount;
                caught = (case rejected t of
                            None \<Rightarrow> []
                          | Some e \<Rightarrow> [ConsoleError ''Error processing results:'' (Some e)]);
                f = found_finally env
            in \<lparr>actions = actions t @ caught @ fst f, next_check = next_check t,
                rejected = snd f\<rparr>)
      else \<lparr>actions = [ConsoleLog (''Retrying to fetch results ('' @ decimal (retryCount + 1)
                                     @ ''/'' @ decimal maxRetries @ '')...''),
                        SetTimeout (retryCount + 1) retryInterval],
            next_check = Some (retryCount + 1), rejected = None\<rparr>)"

function poll :: "platform \<Rightarrow> (nat \<Rightarrow> check_env) \<Rightarrow> string \<Rightarrow> nat \<Rightarrow> action list" where
  \<comment> \<open>The chain of checks that \<open>checkResults(retryCount)\<close> starts: each deferred check runs
      when its timer fires.  \<open>envs n\<close> is what the check with retry count \<open>n\<close> meets.\<close>
  "poll pf envs question retryCount =
     (let r = checkResults pf (envs retryCount) question retryCount
      in actions r @ (case next_check r of
                        None \<Rightarrow> []
                      | Some n \<Rightarrow> poll pf envs question n))"
  by pat_completeness auto
termination
proof (relation "measure (\<lambda>(pf, envs, question, retryCount). Suc maxRetries - retryCount)")
  show "wf (measure (\<lambda>(pf, envs, question, retryCount). Suc maxRetries - retryCount))"
    by simp
next
  fix pf :: platform and envs :: "nat \<Rightarrow> check_env" and question :: string
    and retryCount :: nat and r :: check_result and n :: nat
  assume "r = checkResults pf (envs retryCount) question retryCount"
    and "next_check r = Some n"
  then have "retryCount < maxRetries \<and> n = retryCount + 1"
    by (auto simp: checkResults_def found_try_def Let_def
             split: if_splits option.splits sum.splits)
  then show "((pf, envs, question, n), (pf, envs, question, retryCount))
      \<in> measure (\<lambda>(pf, envs, question, retryCount). Suc maxRetries - retryCount)"
    by (simp add: Suc_diff_le)
qed

declare poll.simps [simp del]

definition renderResultsWhenAvailable ::
    "platform \<Rightarrow> (nat \<Rightarrow> check_env) \<Rightarrow> string \<Rightarrow> action list" where
  \<comment> \<open>Line 204: \<open>checkResults(0)\<close>\<close>
  "renderResultsWhenAvailable pf envs question = poll pf envs question 0"

section \<open>The question dispatcher\<close>

record submit_env =
  request_file :: "file_text option"  \<comment> \<open>the request file on entry; \<open>None\<close>: it does not exist\<close>
  create_fails :: bool                 \<comment> \<open>the \<open>fs.writeFileSync\<close> of line 102 throws\<close>
  request_lock_fails :: bool
  request_read_fails :: bool
  write_fails :: bool                  \<comment> \<open>the \<open>fs.writeFileSync\<close> of line 123 throws\<close>
  request_unlock_fails :: bool

record submit_result =
  file_after :: "file_text option"    \<comment> \<open>the request file when the call has settled\<close>
  submit_actions :: "action list"
  submit_rejected :: "error option"

definition existingData :: "submit_env \<Rightarrow> file_text option \<Rightarrow> json \<times> action list" where
  \<comment> \<open>Lines 110 to 119: the record read back from the file, or the default structure when
      the file is empty or when reading or parsing throws.\<close>
  "existingData env file =
     (let default = JObject [(''question'', JString [])];
          failed = (\<lambda>e. (default,
                     [ConsoleError ''Error parsing JSON, initializing with default:'' (Some e)]))
      in if request_read_fails env then failed IOError
         else case file of
           None \<Rightarrow> failed IOError
         | Some EmptyText \<Rightarrow> (default, [])
         | Some fileContent \<Rightarrow>
             (case JSON_parse fileContent of Inl e \<Rightarrow> failed e | Inr v \<Rightarrow> (v, [])))"

definition submit_try :: "submit_env \<Rightarrow> string \<Rightarrow> submit_result" where
  \<comment> \<open>The \<open>try\<close> block of lines 98 to 128; \<open>submit_rejected\<close> holds what it throws.\<close>
  "submit_try env question =
     (let questionData = JSON_stringify (JObject [(''question'', JString question)]);
          absent = (request_file env = None)
      in if absent \<and> create_fails env
         then \<lparr>file_after = None,
               submit_actions = [Failed (WriteFile rag_question_json questionData)],
               submit_rejected = Some IOError\<rparr>
         else
     (let file = (if absent then Some questionData else request_file env);
          created = (if absent
                     then [WriteFile rag_question_json questionData,
                           ConsoleLog ''Question JSON file created successfully.'']
                     else [])
      in if request_lock_fails env
         then \<lparr>file_after = file, submit_actions = created @ [Failed (Lock rag_question_json)],
               submit_rejected = Some IOError\<rparr>
         else
     (let existing = existingData env file;
          parsed = created @ [Lock rag_question_json] @ snd existing
      in case js_set (fst existing) ''question'' (JString question) of
           Inl e \<Rightarrow> \<lparr>file_after = file, submit_actions = parsed, submit_rejected = Some e\<rparr>
         | Inr updated \<Rightarrow>
             if write_fails env
             then \<lparr>file_after = file,
                   submit_actions =
                     parsed @ [Failed (WriteFile rag_question_json (JSON_stringify updated))],
                   submit_rejected = Some IOError\<rparr>
             else \<lparr>file_after = Some (JSON_stringify updated),
                   submit_actions =
                     parsed @ [WriteFile rag_question_json (JSON_stringify updated),
                               RenderResultsWhenAvailable question],
                   submit_rejected = None\<rparr>)))"

definition handleQuestionSubmit :: "submit_env \<Rightarrow> string \<Rightarrow> submit_result" where
  \<comment> \<open>The \<open>catch\<close> block reports whatever the \<open>try\<close> block threw; the \<open>finally\<close> block calls
      \<open>unlock\<close>, whose rejection is the only one to leave the function.\<close>
  "handleQuestionSubmit env question =
     (let t = submit_try env question;
          caught = (case submit_rejected t of
                      None \<Rightarrow> []
                    | Some e \<Rightarrow> [ConsoleError ''Error handling question:'' (Some e),
                                Notice ''Failed to process the question. Please try again.''])
      in if request_unlock_fails env
         then \<lparr>file_after = file_after t,
               submit_actions = submit_actions t @ caught @ [Failed (Unlock rag_question_json)],
               submit_rejected = Some IOError\<rparr>
         else \<lparr>file_after = file_after t,
               submit_actions = submit_actions t @ caught @ [Unlock rag_question_json],
               submit_rejected = None\<rparr>)"

definition read_question :: "file_text option \<Rightarrow> json option" where
  \<comment> \<open>A read of the request file: the \<open>question\<close> member of the record it holds\<close>
  "read_question file =
     (case file of
        None \<Rightarrow> None
      | Some t \<Rightarrow>
          (case JSON_parse t of Inr (JObject kvs) \<Rightarrow> map_of kvs ''question'' | _ \<Rightarrow> None))"

section \<open>Scenarios\<close>

text \<open>Concrete surroundings, used to run the program on explicit inputs.\<close>

definition found_env :: check_env where
  \<comment> \<open>The response file holds \<open>{"answer": "Y", "sources": []}\<close>, the document holds a header
      and the delimiter, the vault stores what it is handed, and no call fails.\<close>
  "found_env =
     \<lparr>results_file = Some (Json (JObject [(''answer'', JString ''Y''), (''sources'', JArray [])])),
      lock_fails = False, read_fails = False, length_positive = False,
      vault_read = Inr ''Chat\<newline>\<newline>---\<newline>'', modify_fails = False,
      vault_reread = (\<lambda>new. Inr new), unlock_fails = False, unlink_fails = False\<rparr>"

definition stale_env :: check_env where
  \<comment> \<open>As \<open>found_env\<close>, but the vault still returns the old document after \<open>modify\<close>.\<close>
  "stale_env = found_env\<lparr>vault_reread := (\<lambda>new. Inr ''Chat\<newline>\<newline>---\<newline>'')\<rparr>"

definition malformed_env :: check_env where
  \<comment> \<open>As \<open>found_env\<close>, but the response file is not JSON.\<close>
  "malformed_env = found_env\<lparr>results_file := Some Malformed\<rparr>"

definition absent_env :: check_env where
  \<comment> \<open>As \<open>found_env\<close>, but there is no response file.\<close>
  "absent_env = found_env\<lparr>results_file := None\<rparr>"

definition calm_env :: submit_env where
  \<comment> \<open>No request file yet, and no call fails.\<close>
  "calm_env =
     \<lparr>request_file = None, create_fails = False, request_lock_fails = False,
      request_read_fails = False, write_fails = False, request_unlock_fails = False\<rparr>"

section \<open>Facts about the string functions\<close>

lemma split_scan_not_Nil: "split_scan sep piece s \<noteq> []"
  by (induction sep piece s rule: split_scan.induct) auto

lemma split_scan_no_occurrence:
  "\<not> sublist sep s \<Longrightarrow> split_scan sep piece s = [piece @ s]"
proof (induction s arbitrary: piece)
  case Nil
  then show ?case by simp
next
  case (Cons c cs)
  from Cons.prems have np: "\<not> prefix sep (c # cs)" and ns: "\<not> sublist sep cs"
    by (simp_all add: sublist_Cons_right)
  from np Cons.IH [OF ns] show ?case by simp
qed

lemma prefix_inside_header:
  assumes "sep \<noteq> []" and "h \<noteq> []" and "prefix sep (h @ sep @ r)"
  shows "prefix sep (h @ butlast sep)"
proof -
  have len: "length sep \<le> length (h @ butlast sep)"
    using assms(1,2) by (cases h) auto
  have "h @ sep @ r = (h @ butlast sep) @ (last sep # r)"
    using assms(1) by simp
  with assms(3) have "prefix sep ((h @ butlast sep) @ (last sep # r))"
    by simp
  with len show ?thesis
    by (metis prefix_length_prefix prefixI)
qed

lemma split_scan_first_occurrence:
  assumes "sep \<noteq> []" and "\<not> sublist sep (h @ butlast sep)"
  shows "split_scan sep piece (h @ sep @ r) = (piece @ h) # split_scan sep [] r"
  using assms(2)
proof (induction h arbitrary: piece)
  case Nil
  from assms(1) obtain c cs where sep: "sep = c # cs"
    by (cases sep) auto
  have "split_scan sep piece (c # cs @ r) = piece # split_scan sep [] r"
    using sep by simp
  with sep show ?case by simp
next
  case (Cons x h)
  have "\<not> prefix sep (x # h @ sep @ r)"
  proof
    assume "prefix sep (x # h @ sep @ r)"
    then have "prefix sep ((x # h) @ butlast sep)"
      using prefix_inside_header [OF assms(1), of "x # h" r] by simp
    then have "sublist sep ((x # h) @ butlast sep)"
      by (rule prefix_imp_sublist)
    with Cons.prems show False by simp
  qed
  moreover from Cons.prems have "\<not> sublist sep (h @ butlast sep)"
    by (simp add: sublist_Cons_right)
  ultimately show ?case
    using Cons.IH [of "piece @ [x]"] by simp
qed

lemma js_join_split_scan:
  "sep \<noteq> [] \<Longrightarrow> js_join sep (split_scan sep piece s) = piece @ s"
proof (induction sep piece s rule: split_scan.induct)
  case (1 sep piece)
  then show ?case by simp
next
  case (2 sep piece c cs)
  show ?case
  proof (cases "prefix sep (c # cs)")
    case True
    then have eq: "c # cs = sep @ drop (length sep) (c # cs)"
      by (metis append_take_drop_id prefix_def append_eq_conv_conj)
    from True 2 have "js_join sep (split_scan sep [] (drop (length sep) (c # cs)))
        = drop (length sep) (c # cs)"
      by simp
    with True "2.prems" eq show ?thesis
      by (simp add: split_scan_not_Nil)
  next
    case False
    with 2 show ?thesis by simp
  qed
qed

lemma js_indexOf_None: "js_indexOf s t = None \<longleftrightarrow> \<not> sublist t s"
  by (induction s) (auto simp: sublist_Cons_right)

lemma js_indexOf_first:
  assumes "sep \<noteq> []" and "\<not> sublist sep (h @ butlast sep)"
  shows "js_indexOf (h @ sep @ r) sep = Some (length h)"
  using assms(2)
proof (induction h)
  case Nil
  from assms(1) show ?case by (cases sep) auto
next
  case (Cons x h)
  have "\<not> prefix sep (x # h @ sep @ r)"
  proof
    assume "prefix sep (x # h @ sep @ r)"
    then have "prefix sep ((x # h) @ butlast sep)"
      using prefix_inside_header [OF assms(1), of "x # h" r] by simp
    then have "sublist sep ((x # h) @ butlast sep)"
      by (rule prefix_imp_sublist)
    with Cons.prems show False by simp
  qed
  moreover from Cons.prems have "\<not> sublist sep (h @ butlast sep)"
    by (simp add: sublist_Cons_right)
  ultimately show ?case
    using Cons.IH by simp
qed

lemma js_indexOf_Some:
  "js_indexOf s sep = Some i \<Longrightarrow> sep \<noteq> [] \<Longrightarrow>
     s = take i s @ sep @ drop (i + length sep) s \<and> \<not> sublist sep (take i s @ butlast sep)"
proof (induction s arbitrary: i)
  case Nil
  then show ?case by simp
next
  case (Cons c cs)
  show ?case
  proof (cases "prefix sep (c # cs)")
    case True
    with Cons.prems have i: "i = 0" by simp
    from True have "c # cs = sep @ drop (length sep) (c # cs)"
      by (metis append_take_drop_id prefix_def append_eq_conv_conj)
    moreover have "\<not> sublist sep (butlast sep)"
      using Cons.prems(2) by (auto dest!: sublist_length_le) (cases sep rule: rev_cases, auto)
    ultimately show ?thesis using i by simp
  next
    case False
    with Cons.prems obtain j where j: "js_indexOf cs sep = Some j" and i: "i = Suc j"
      by auto
    from Cons.IH [OF j Cons.prems(2)]
    have eq: "cs = take j cs @ sep @ drop (j + length sep) cs"
      and no: "\<not> sublist sep (take j cs @ butlast sep)"
      by simp_all
    have "\<not> prefix sep (c # take j cs @ butlast sep)"
    proof
      assume p: "prefix sep (c # take j cs @ butlast sep)"
      have "prefix (c # take j cs @ butlast sep) (c # take j cs @ sep @ drop (j + length sep) cs)"
        using Cons.prems(2) by (simp add: prefix_def) (metis append_butlast_last_id append_assoc)
      with p have "prefix sep (c # take j cs @ sep @ drop (j + length sep) cs)"
        by (rule prefix_order.trans)
      with eq False show False by simp
    qed
    with no have "\<not> sublist sep (c # take j cs @ butlast sep)"
      by (simp add: sublist_Cons_right)
    with eq i show ?thesis by simp
  qed
qed

lemma js_trim_decompose:
  "\<exists>a b. s = a @ js_trim s @ b \<and> (\<forall>c \<in> set a. js_whitespace c) \<and> (\<forall>c \<in> set b. js_whitespace c)"
proof -
  let ?m = "dropWhile js_whitespace s"
  have 1: "s = takeWhile js_whitespace s @ ?m" by simp
  have 2: "rev ?m = takeWhile js_whitespace (rev ?m) @ dropWhile js_whitespace (rev ?m)"
    by simp
  then have "?m = js_trim s @ rev (takeWhile js_whitespace (rev ?m))"
    unfolding js_trim_def by (metis rev_append rev_rev_ident)
  with 1 have "s = takeWhile js_whitespace s @ js_trim s @ rev (takeWhile js_whitespace (rev ?m))"
    by simp
  moreover have "\<forall>c \<in> set (takeWhile js_whitespace s). js_whitespace c"
    by (auto dest: set_takeWhileD)
  moreover have "\<forall>c \<in> set (rev (takeWhile js_whitespace (rev ?m))). js_whitespace c"
    by (auto dest: set_takeWhileD)
  ultimately show ?thesis by blast
qed

section \<open>Facts about the model\<close>

lemma found_finally_cases:
  "fst (found_finally env) = [Failed (Unlock rag_results_json)]
   \<or> fst (found_finally env) = [Unlock rag_results_json, Failed (Unlink rag_results_json),
         ConsoleError ''Error deleting file:'' (Some IOError)]
   \<or> fst (found_finally env) = [Unlock rag_results_json, Unlink rag_results_json,
         ConsoleLog ''Results file deleted successfully'']"
  by (simp add: found_finally_def)

lemma map_of_assign: "map_of (assign key v kvs) key = Some v"
  by (induction kvs) auto

lemma map_of_finite_json:
  "map_of (map (\<lambda>(k, v). (k, finite_json v)) kvs) key = map_option finite_json (map_of kvs key)"
  by (induction kvs) auto

lemma notices_append: "notices (xs @ ys) = notices xs @ notices ys"
  by (simp add: notices_def)

lemma modifications_append: "modifications (xs @ ys) = modifications xs @ modifications ys"
  by (simp add: modifications_def)

lemma timers_append: "timers (xs @ ys) = timers xs @ timers ys"
  by (simp add: timers_def)

lemma observers_of_retries:
  "notices (concat (map (\<lambda>k. [ConsoleLog (m k), SetTimeout (g k) d]) ks)) = []"
  "modifications (concat (map (\<lambda>k. [ConsoleLog (m k), SetTimeout (g k) d]) ks)) = []"
  "timers (concat (map (\<lambda>k. [ConsoleLog (m k), SetTimeout (g k) d]) ks))
     = map (\<lambda>k. (g k, d)) ks"
  by (induction ks) (simp_all add: notices_def modifications_def timers_def)

text \<open>
  While the response file stays away, the chain of checks started at retry count \<open>n\<close> is
  one log line and one timer per remaining count, then the report of exhaustion.
\<close>

lemma poll_absent:
  assumes "\<forall>k<maxRetries. results_file (envs k) = None"
  shows "n \<le> maxRetries \<Longrightarrow>
     poll pf envs question n =
       concat (map (\<lambda>k. [ConsoleLog (''Retrying to fetch results ('' @ decimal (k + 1)
                                      @ ''/'' @ decimal maxRetries @ '')...''),
                         SetTimeout (k + 1) retryInterval]) [n..<maxRetries])
       @ [ConsoleError ''Max retries reached. No results available.'' None,
          Notice ''Failed to get results. Please try again.'']"
proof (induction "maxRetries - n" arbitrary: n)
  case 0
  then have "n = maxRetries" by simp
  then show ?case
    by (subst poll.simps) (simp add: checkResults_def)
next
  case (Suc d)
  then have lt: "n < maxRetries" and d: "d = maxRetries - Suc n" and le: "Suc n \<le> maxRetries"
    by simp_all
  from lt assms have absent: "results_file (envs n) = None" by simp
  have "poll pf envs question n =
      [ConsoleLog (''Retrying to fetch results ('' @ decimal (n + 1)
                   @ ''/'' @ decimal maxRetries @ '')...''),
       SetTimeout (n + 1) retryInterval] @ poll pf envs question (Suc n)"
    using lt absent by (subst poll.simps) (simp add: checkResults_def)
  with Suc.hyps(1) [OF d le] lt show ?case
    by (simp add: upt_conv_Cons)
qed

lemma js_map_sourceLink:
  "js_map (sourceLink pf) (map JString srcs)
     = Inr (map (\<lambda>s. wiki_link (path_basename pf s (path_extname pf s))) srcs)"
proof (induction srcs)
  case Nil
  show ?case by simp
next
  case (Cons s srcs)
  have "sourceLink pf (JString s) = Inr (wiki_link (path_basename pf s (path_extname pf s)))"
    by (simp add: sourceLink_def)
  with Cons show ?case by simp
qed

lemma js_falsy_values:
  "\<not> js_truthy v \<longleftrightarrow>
     v = None \<or> v = Some JNull \<or> v = Some (JBool False) \<or> v = Some (JNumber ''0'')
     \<or> v = Some (JString [])"
  by (auto simp: js_truthy_def split: option.splits json.splits)

lemma js_or_falsy: "\<not> js_truthy v \<Longrightarrow> js_or v d = d"
  by (auto simp: js_or_def split: option.splits)

text \<open>
  When no call fails and the request file is absent, empty, unparseable or holds a JSON
  object, the submitted question can be read back from the file.
\<close>

lemma submit_stores_question:
  assumes "\<not> create_fails env" and "\<not> request_lock_fails env" and "\<not> write_fails env"
    and "request_file env = None \<or> request_file env = Some EmptyText
         \<or> request_file env = Some Malformed
         \<or> (\<exists>kvs. request_file env = Some (Json (JObject kvs)))"
  shows "read_question (file_after (handleQuestionSubmit env question)) = Some (JString question)"
  using assms
  by (auto simp: handleQuestionSubmit_def submit_try_def existingData_def Let_def js_set_def
        JSON_parse_def JSON_stringify_def read_question_def map_of_assign map_of_finite_json)

section \<open>Properties of the document merge\<close>

text \<open>
  Claim C3, as amended.  The merge keeps the header region, the content before the first
  occurrence of the delimiter, up to trimming: the header is some white space, its
  trimmed form, and some white space again, and the output is that trimmed form, an
  empty line, the delimiter, an empty line, the answer block, and a remainder.
\<close>

theorem header_preserved_up_to_trim:
  "\<exists>lead trail rest.
      header_region text = lead @ js_trim (header_region text) @ trail
    \<and> list_all js_whitespace lead \<and> list_all js_whitespace trail
    \<and> newContent text block =
        Inr (js_trim (header_region text) @ ''\<newline>\<newline>---\<newline>\<newline>'' @ block @ rest)"
proof -
  obtain lead trail where lt: "header_region text = lead @ js_trim (header_region text) @ trail"
    "list_all js_whitespace lead" "list_all js_whitespace trail"
    using js_trim_decompose [of "header_region text"] by (auto simp: list_all_iff)
  have "\<exists>rest. newContent text block =
        Inr (js_trim (header_region text) @ ''\<newline>\<newline>---\<newline>\<newline>'' @ block @ rest)"
  proof (cases "js_indexOf text ''---''")
    case None
    then have "\<not> sublist ''---'' text" by (simp add: js_indexOf_None)
    with None show ?thesis
      using split_scan_no_occurrence [of "''---''" "text" "[]"]
      by (simp add: newContent_def js_split_def header_region_def js_trim_def)
  next
    case (Some i)
    from js_indexOf_Some [OF Some]
    have eq: "text = take i text @ ''---'' @ drop (i + 3) text"
      and no: "\<not> sublist ''---'' (take i text @ ''--'')"
      by (simp_all add: numeral_3_eq_3)
    have "split_scan ''---'' [] (take i text @ ''---'' @ drop (i + 3) text)
        = take i text # split_scan ''---'' [] (drop (i + 3) text)"
      using split_scan_first_occurrence [of "''---''" "take i text" "[]" "drop (i + 3) text"] no
      by simp
    with eq have "split_scan ''---'' [] text = take i text # split_scan ''---'' [] (drop (i + 3) text)"
      by simp
    with Some show ?thesis
      by (simp add: newContent_def js_split_def header_region_def)
  qed
  with lt show ?thesis by blast
qed

text \<open>
  Claim C3 as stated fails: the header of \<open>" a---b"\<close> is \<open>" a"\<close>, with its leading space, and
  the merged document does not contain it.
\<close>

theorem header_verbatim_counterexample:
  "header_region '' a---b'' = '' a''
   \<and> newContent '' a---b'' ''X'' = Inr ''a\<newline>\<newline>---\<newline>\<newline>Xb''
   \<and> \<not> js_includes ''a\<newline>\<newline>---\<newline>\<newline>Xb'' '' a''"
  by (simp add: header_region_def newContent_def js_split_def js_trim_def js_whitespace_def
      js_includes_def sublist_code)

text \<open>
  Claim C4, as amended.  When the text is a header, the delimiter and a rest, and the
  delimiter does not begin inside the header, the split takes that first occurrence:
  the header is the first piece, the pieces of the rest join back to the rest
  unchanged, and the output is the trimmed header, an empty line, the delimiter, an
  empty line, the answer block, and the trimmed rest.
\<close>

theorem merge_at_first_delimiter:
  assumes "currentContent = header @ ''---'' @ rest"
    and "\<not> js_includes (header @ ''--'') ''---''"
  shows "header_region currentContent = header
       \<and> js_split currentContent ''---'' = header # js_split rest ''---''
       \<and> js_join ''---'' (js_split rest ''---'') = rest
       \<and> newContent currentContent block =
           Inr (js_trim header @ ''\<newline>\<newline>---\<newline>\<newline>'' @ block @ js_trim rest)"
proof -
  from assms(2) have no: "\<not> sublist ''---'' (header @ ''--'')"
    by (simp add: js_includes_def)
  have sp: "split_scan ''---'' [] (header @ ''---'' @ rest) = header # split_scan ''---'' [] rest"
    using split_scan_first_occurrence [of "''---''" header "[]" rest] no by simp
  have jn: "js_join ''---'' (split_scan ''---'' [] rest) = rest"
    using js_join_split_scan [of "''---''" "[]" rest] by simp
  have ix: "js_indexOf (header @ ''---'' @ rest) ''---'' = Some (length header)"
    using js_indexOf_first [of "''---''" header rest] no by simp
  from sp jn ix assms(1) show ?thesis
    by (simp add: newContent_def js_split_def header_region_def)
qed

text \<open>
  The merge of \<open>"a---b---c"\<close>: the second delimiter stays inside the rest.
\<close>

theorem merge_at_first_delimiter_witness:
  "header_region ''a---b---c'' = ''a''
   \<and> js_split ''a---b---c'' ''---'' = ''a'' # js_split ''b---c'' ''---''
   \<and> js_join ''---'' (js_split ''b---c'' ''---'') = ''b---c''
   \<and> newContent ''a---b---c'' ''X'' = Inr ''a\<newline>\<newline>---\<newline>\<newline>Xb---c''"
proof -
  have 1: "''a---b---c'' = ''a'' @ ''---'' @ ''b---c''" by simp
  have 2: "\<not> js_includes (''a'' @ ''--'') ''---''"
    by (simp add: js_includes_def sublist_code)
  have 3: "js_trim ''a'' = ''a''" "js_trim ''b---c'' = ''b---c''"
    by (simp_all add: js_trim_def js_whitespace_def)
  show ?thesis using merge_at_first_delimiter [OF 1 2, of "''X''"] 3 by simp
qed

text \<open>
  Claim C4 as stated fails: in the output the delimiter does not follow the trimmed
  header directly, an empty line stands between them.
\<close>

theorem delimiter_after_header_counterexample:
  "newContent ''a---b'' ''X'' = Inr ''a\<newline>\<newline>---\<newline>\<newline>Xb''
   \<and> \<not> prefix (js_trim ''a'' @ ''---'') ''a\<newline>\<newline>---\<newline>\<newline>Xb''
   \<and> ''a\<newline>\<newline>---\<newline>\<newline>Xb''
       \<noteq> js_trim ''a'' @ ''---'' @ ''\<newline>\<newline>'' @ ''X'' @ js_trim ''b''"
  by (simp add: newContent_def js_split_def js_trim_def js_whitespace_def)

text \<open>
  Claim C8.  A text without the delimiter is a header as a whole: the split returns it
  as its only piece, and the output is the trimmed text, the delimiter between two
  empty lines, and the answer block, with nothing after it.
\<close>

theorem merge_without_delimiter:
  assumes "\<not> js_includes text ''---''"
  shows "header_region text = text
       \<and> js_split text ''---'' = [text]
       \<and> newContent text block = Inr (js_trim text @ ''\<newline>\<newline>---\<newline>\<newline>'' @ block)"
proof -
  from assms have no: "\<not> sublist ''---'' text"
    by (simp add: js_includes_def)
  then have "js_indexOf text ''---'' = None"
    by (simp add: js_indexOf_None)
  with no show ?thesis
    using split_scan_no_occurrence [of "''---''" "text" "[]"]
    by (simp add: newContent_def js_split_def header_region_def js_trim_def)
qed

theorem merge_without_delimiter_witness:
  "\<not> js_includes '' Chat '' ''---''
   \<and> header_region '' Chat '' = '' Chat ''
   \<and> js_split '' Chat '' ''---'' = ['' Chat '']
   \<and> newContent '' Chat '' ''X'' = Inr ''Chat\<newline>\<newline>---\<newline>\<newline>X''"
proof -
  have 1: "\<not> js_includes '' Chat '' ''---''"
    by (simp add: js_includes_def sublist_code)
  have 2: "js_trim '' Chat '' = ''Chat''"
    by (simp add: js_trim_def js_whitespace_def)
  show ?thesis using merge_without_delimiter [OF 1, of "''X''"] 1 2 by simp
qed

section \<open>Properties of the answer block\<close>

text \<open>
  Claim C7.  When the \<open>sources\<close> member of the response is an array of strings, the block
  carries, between the line \<open>### Sources:\<close> and the closing delimiter, the fixed line
  \<open>- No sources found.\<close> for the empty array, and otherwise one link per source, in the
  order of the array and separated by line feeds; the name in a link is
  \<open>path.basename\<close> of the source with its \<open>path.extname\<close> taken off.  This holds for
  every answer that can be printed; an answer that cannot (an object holding a member
  named \<open>toString\<close>) makes the template throw, and no block is built.
\<close>

theorem rendered_source_section:
  assumes "js_get resultsData ''sources'' = Inr (Some (JArray (map JString srcs)))"
    and "js_get resultsData ''answer'' = Inr a"
  shows "answerContent pf len_positive question resultsData =
     (case js_toString (js_or a (JString ''No answer provided'')) of
        Inl e \<Rightarrow> Inl e
      | Inr shown \<Rightarrow>
          Inr (''## '' @ question @ ''\<newline>\<newline>'' @ shown
               @ ''\<newline>\<newline>### Sources:\<newline>''
               @ (if srcs = [] then ''- No sources found.''
                  else js_join ''\<newline>''
                         (map (\<lambda>s. ''- ['' @ ''['' @ path_basename pf s (path_extname pf s)
                                     @ '']'' @ '']'') srcs))
               @ ''\<newline>\<newline>---\<newline>\<newline>''))"
proof -
  have "(\<lambda>s. wiki_link (path_basename pf s (path_extname pf s)))
      = (\<lambda>s. ''- ['' @ ''['' @ path_basename pf s (path_extname pf s) @ '']'' @ '']'')"
    by (simp add: wiki_link_def)
  with assms show ?thesis
    by (simp add: answerContent_def js_or_def js_truthy_def sourcesText_def js_map_sourceLink
        split: sum.splits)
qed

text \<open>
  The two sources \<open>notes/Alpha.md\<close> and \<open>notes/Beta.md\<close> on a POSIX platform, the empty
  list of sources, and an answer that cannot be printed.
\<close>

theorem rendered_source_section_witness:
  "answerContent posix False ''Q''
     (JObject [(''answer'', JString ''Y''),
               (''sources'', JArray [JString ''notes/Alpha.md'', JString ''notes/Beta.md''])])
   = Inr (''## Q\<newline>\<newline>Y\<newline>\<newline>### Sources:\<newline>''
          @ wiki_link ''Alpha'' @ ''\<newline>'' @ wiki_link ''Beta''
          @ ''\<newline>\<newline>---\<newline>\<newline>'')
   \<and> answerContent posix False ''Q'' (JObject [(''answer'', JString ''Y''), (''sources'', JArray [])])
   = Inr ''## Q\<newline>\<newline>Y\<newline>\<newline>### Sources:\<newline>- No sources found.\<newline>\<newline>---\<newline>\<newline>''
   \<and> answerContent posix False ''Q''
       (JObject [(''answer'', JObject [(''toString'', JNumber ''1'')]), (''sources'', JArray [])])
   = Inl TypeError"
proof -
  have 1: "js_get (JObject [(''answer'', JString ''Y''),
               (''sources'', JArray [JString ''notes/Alpha.md'', JString ''notes/Beta.md''])])
            ''sources'' = Inr (Some (JArray (map JString [''notes/Alpha.md'', ''notes/Beta.md''])))"
    by (simp add: js_get_def)
  have 2: "js_get (JObject [(''answer'', JString ''Y''),
               (''sources'', JArray [JString ''notes/Alpha.md'', JString ''notes/Beta.md''])])
            ''answer'' = Inr (Some (JString ''Y''))"
    by (simp add: js_get_def)
  have 3: "js_get (JObject [(''answer'', JString ''Y''), (''sources'', JArray [])]) ''sources''
      = Inr (Some (JArray (map JString [])))"
    by (simp add: js_get_def)
  have 4: "js_get (JObject [(''answer'', JString ''Y''), (''sources'', JArray [])]) ''answer''
      = Inr (Some (JString ''Y''))"
    by (simp add: js_get_def)
  have 5: "path_basename posix ''notes/Alpha.md'' (path_extname posix ''notes/Alpha.md'') = ''Alpha''"
    "path_basename posix ''notes/Beta.md'' (path_extname posix ''notes/Beta.md'') = ''Beta''"
    by (simp_all add: posix_def posix_basename_def posix_extname_def posix_segment_def Let_def
        suffix_to_prefix)
  have 6: "js_get (JObject [(''answer'', JObject [(''toString'', JNumber ''1'')]),
              (''sources'', JArray [])]) ''sources''
      = Inr (Some (JArray (map JString [])))"
    by (simp add: js_get_def)
  have 7: "js_get (JObject [(''answer'', JObject [(''toString'', JNumber ''1'')]),
              (''sources'', JArray [])]) ''answer''
      = Inr (Some (JObject [(''toString'', JNumber ''1'')]))"
    by (simp add: js_get_def)
  show ?thesis
    using rendered_source_section [OF 1 2, of posix False "''Q''"]
      rendered_source_section [OF 3 4, of posix False "''Q''"]
      rendered_source_section [OF 6 7, of posix False "''Q''"] 5
    by (simp add: js_or_def js_truthy_def wiki_link_def)
qed

text \<open>
  Claim C10.  The defaults stand in for every falsy member, not only for an absent one.
  Falsy are \<open>undefined\<close> (the member is absent), \<open>null\<close>, \<open>false\<close>, zero and the empty string
  (lemma \<open>js_falsy_values\<close>).  When \<open>answer\<close> is falsy the block prints the placeholder
  answer; when \<open>sources\<close> is falsy the block prints what it prints for the empty list of
  sources (and the template throws where the answer cannot be printed).  Members that
  are not falsy are not replaced: the block prints the answer and the sources that the
  response holds.
\<close>

theorem falsy_fields_take_defaults:
  assumes "js_get resultsData ''answer'' = Inr a"
    and "js_get resultsData ''sources'' = Inr s"
  shows "(\<not> js_truthy a \<and> sourcesText pf len_positive (js_or s (JArray [])) = Inr text \<longrightarrow>
            answerContent pf len_positive question resultsData =
              Inr (''## '' @ question @ ''\<newline>\<newline>'' @ ''No answer provided''
                   @ ''\<newline>\<newline>### Sources:\<newline>'' @ text
                   @ ''\<newline>\<newline>---\<newline>\<newline>''))
       \<and> (\<not> js_truthy s \<longrightarrow>
            sourcesText pf len_positive (js_or s (JArray [])) = sourcesText pf len_positive (JArray [])
          \<and> answerContent pf len_positive question resultsData =
              (case js_toString (js_or a (JString ''No answer provided'')) of
                 Inl e \<Rightarrow> Inl e
               | Inr shown \<Rightarrow>
                   Inr (''## '' @ question @ ''\<newline>\<newline>'' @ shown
                        @ ''\<newline>\<newline>### Sources:\<newline>'' @ ''- No sources found.''
                        @ ''\<newline>\<newline>---\<newline>\<newline>'')))
       \<and> (js_truthy a \<and> a = Some v \<and> js_toString v = Inr shown
            \<and> js_truthy s \<and> s = Some w \<and> sourcesText pf len_positive w = Inr text \<longrightarrow>
            answerContent pf len_positive question resultsData =
              Inr (''## '' @ question @ ''\<newline>\<newline>'' @ shown
                   @ ''\<newline>\<newline>### Sources:\<newline>'' @ text
                   @ ''\<newline>\<newline>---\<newline>\<newline>''))"
proof -
  have falsy_a: "\<not> js_truthy a \<Longrightarrow>
      js_toString (js_or a (JString ''No answer provided'')) = Inr ''No answer provided''"
    by (simp add: js_or_falsy)
  have falsy_s: "\<not> js_truthy s \<Longrightarrow>
      sourcesText pf len_positive (js_or s (JArray [])) = Inr ''- No sources found.''"
    by (simp add: js_or_falsy sourcesText_def)
  have empty: "sourcesText pf len_positive (JArray []) = Inr ''- No sources found.''"
    by (simp add: sourcesText_def)
  have truthy: "\<And>x y d. js_truthy x \<Longrightarrow> x = Some y \<Longrightarrow> js_or x d = y"
    by (simp add: js_or_def)
  show ?thesis
    using assms falsy_a falsy_s empty truthy [of a v] truthy [of s w]
    by (auto simp: answerContent_def Let_def split: sum.splits)
qed

text \<open>
  The response \<open>{"answer": "", "sources": null}\<close>, and a response in which neither member
  is falsy.
\<close>

theorem falsy_fields_take_defaults_witness:
  "answerContent posix False ''Q'' (JObject [(''answer'', JString []), (''sources'', JNull)])
     = Inr ''## Q\<newline>\<newline>No answer provided\<newline>\<newline>### Sources:\<newline>- No sources found.\<newline>\<newline>---\<newline>\<newline>''
   \<and> answerContent posix False ''Q''
       (JObject [(''answer'', JString ''Y''), (''sources'', JArray [JString ''notes/Alpha.md''])])
     = Inr (''## Q\<newline>\<newline>Y\<newline>\<newline>### Sources:\<newline>'' @ wiki_link ''Alpha''
            @ ''\<newline>\<newline>---\<newline>\<newline>'')"
proof -
  have 1: "js_get (JObject [(''answer'', JString []), (''sources'', JNull)]) ''answer''
      = Inr (Some (JString []))"
    and 2: "js_get (JObject [(''answer'', JString []), (''sources'', JNull)]) ''sources''
      = Inr (Some JNull)"
    by (simp_all add: js_get_def)
  have 3: "\<not> js_truthy (Some (JString []))" and 4: "\<not> js_truthy (Some JNull)"
    by (simp_all add: js_truthy_def)
  have 5: "sourcesText posix False (js_or (Some JNull) (JArray [])) = Inr ''- No sources found.''"
    by (simp add: js_or_def js_truthy_def sourcesText_def)
  have 6: "js_get (JObject [(''answer'', JString ''Y''),
              (''sources'', JArray [JString ''notes/Alpha.md''])]) ''answer''
      = Inr (Some (JString ''Y''))"
    and 7: "js_get (JObject [(''answer'', JString ''Y''),
              (''sources'', JArray [JString ''notes/Alpha.md''])]) ''sources''
      = Inr (Some (JArray [JString ''notes/Alpha.md'']))"
    by (simp_all add: js_get_def)
  have 8: "js_truthy (Some (JString ''Y''))"
    and 9: "js_truthy (Some (JArray [JString ''notes/Alpha.md'']))"
    by (simp_all add: js_truthy_def)
  have 10: "js_toString (JString ''Y'') = Inr ''Y''"
    by simp
  have 11: "sourcesText posix False (JArray [JString ''notes/Alpha.md'']) = Inr (wiki_link ''Alpha'')"
    by (simp add: sourcesText_def sourceLink_def posix_def posix_basename_def posix_extname_def
        posix_segment_def Let_def suffix_to_prefix)
  from falsy_fields_take_defaults [OF 1 2, of posix False "''- No sources found.''" "''Q''"] 3 4 5
  have falsy: "answerContent posix False ''Q''
      (JObject [(''answer'', JString []), (''sources'', JNull)])
     = Inr ''## Q\<newline>\<newline>No answer provided\<newline>\<newline>### Sources:\<newline>- No sources found.\<newline>\<newline>---\<newline>\<newline>''"
    by simp
  from falsy_fields_take_defaults [OF 6 7, of posix False "wiki_link ''Alpha''" "''Q''"
      "JString ''Y''" "''Y''" "JArray [JString ''notes/Alpha.md'']"] 8 9 10 11
  have truthy: "answerContent posix False ''Q''
       (JObject [(''answer'', JString ''Y''), (''sources'', JArray [JString ''notes/Alpha.md''])])
     = Inr (''## Q\<newline>\<newline>Y\<newline>\<newline>### Sources:\<newline>'' @ wiki_link ''Alpha''
            @ ''\<newline>\<newline>---\<newline>\<newline>'')"
    by simp
  from falsy truthy show ?thesis by blast
qed

section \<open>Properties of the result poller\<close>

text \<open>
  Claim C1, as amended.  Below the maximum retry count, when the response file is found,
  the merge is written and the answer block is not in the document read back, the
  poller notifies the user and defers another check by the fixed delay with the retry
  count raised by one, as the retry for an absent file does; then it releases the lock
  and deletes the response file.
\<close>

theorem failed_verification_increments_counter:
  assumes "retryCount < maxRetries"
    and "results_file env = Some text" and "\<not> lock_fails env" and "\<not> read_fails env"
    and "JSON_parse text = Inr resultsData"
    and "answerContent pf (length_positive env) question resultsData = Inr block"
    and "vault_read env = Inr currentContent"
    and "newContent currentContent block = Inr new"
    and "\<not> modify_fails env"
    and "vault_reread env new = Inr updatedContent"
    and "\<not> js_includes updatedContent block"
  shows "next_check (checkResults pf env question retryCount) = Some (retryCount + 1)
       \<and> actions (checkResults pf env question retryCount) =
           [Lock rag_results_json, VaultModify new,
            ConsoleError ''Failed to verify content update.'' None,
            Notice ''Failed to render the response. Retrying...'',
            SetTimeout (retryCount + 1) retryInterval] @ fst (found_finally env)"
  using assms by (simp add: checkResults_def found_try_def Let_def)

text \<open>The first check against a vault that still returns the old document.\<close>

theorem failed_verification_increments_counter_witness:
  "next_check (checkResults posix stale_env ''Q'' 0) = Some 1
   \<and> actions (checkResults posix stale_env ''Q'' 0) =
       [Lock rag_results_json,
        VaultModify ''Chat\<newline>\<newline>---\<newline>\<newline>## Q\<newline>\<newline>Y\<newline>\<newline>### Sources:\<newline>- No sources found.\<newline>\<newline>---\<newline>\<newline>'',
        ConsoleError ''Failed to verify content update.'' None,
        Notice ''Failed to render the response. Retrying...'',
        SetTimeout 1 2000, Unlock rag_results_json, Unlink rag_results_json,
        ConsoleLog ''Results file deleted successfully'']"
proof -
  let ?block = "''## Q\<newline>\<newline>Y\<newline>\<newline>### Sources:\<newline>- No sources found.\<newline>\<newline>---\<newline>\<newline>''"
  let ?new = "''Chat\<newline>\<newline>---\<newline>\<newline>'' @ ?block"
  have 1: "(0::nat) < maxRetries" by (simp add: maxRetries_def)
  have 2: "results_file stale_env
      = Some (Json (JObject [(''answer'', JString ''Y''), (''sources'', JArray [])]))"
    by (simp add: stale_env_def found_env_def)
  have 3: "\<not> lock_fails stale_env" and 4: "\<not> read_fails stale_env"
    by (simp_all add: stale_env_def found_env_def)
  have 5: "JSON_parse (Json (JObject [(''answer'', JString ''Y''), (''sources'', JArray [])]))
      = Inr (JObject [(''answer'', JString ''Y''), (''sources'', JArray [])])"
    by (simp add: JSON_parse_def)
  have 6: "answerContent posix (length_positive stale_env) ''Q''
      (JObject [(''answer'', JString ''Y''), (''sources'', JArray [])]) = Inr ?block"
    by (simp add: answerContent_def js_get_def js_or_def js_truthy_def sourcesText_def)
  have 7: "vault_read stale_env = Inr ''Chat\<newline>\<newline>---\<newline>''"
    by (simp add: stale_env_def found_env_def)
  have 8: "newContent ''Chat\<newline>\<newline>---\<newline>'' ?block = Inr ?new"
    by (simp add: newContent_def js_split_def js_trim_def js_whitespace_def)
  have 9: "\<not> modify_fails stale_env"
    by (simp add: stale_env_def found_env_def)
  have 10: "vault_reread stale_env ?new = Inr ''Chat\<newline>\<newline>---\<newline>''"
    by (simp add: stale_env_def found_env_def)
  have 11: "\<not> js_includes ''Chat\<newline>\<newline>---\<newline>'' ?block"
    by (simp add: js_includes_def sublist_code)
  have 12: "fst (found_finally stale_env) = [Unlock rag_results_json, Unlink rag_results_json,
        ConsoleLog ''Results file deleted successfully'']"
    by (simp add: found_finally_def stale_env_def found_env_def)
  show ?thesis
    using failed_verification_increments_counter [OF 1 2 3 4 5 6 7 8 9 10 11] 12
    by (simp add: retryInterval_def)
qed

text \<open>
  Claim C1 as stated fails: at retry count 0 the verification fails, and the deferred
  check carries the count 1, not 0.
\<close>

theorem counter_unchanged_counterexample:
  "Notice ''Failed to render the response. Retrying...''
      \<in> set (actions (checkResults posix stale_env ''Q'' 0))
   \<and> next_check (checkResults posix stale_env ''Q'' 0) = Some 1
   \<and> next_check (checkResults posix stale_env ''Q'' 0) \<noteq> Some 0
   \<and> SetTimeout 0 retryInterval \<notin> set (actions (checkResults posix stale_env ''Q'' 0))"
  by (simp add: checkResults_def found_try_def found_finally_def Let_def stale_env_def
      found_env_def maxRetries_def JSON_parse_def answerContent_def js_get_def js_or_def
      js_truthy_def sourcesText_def newContent_def js_split_def js_trim_def js_whitespace_def
      js_includes_def sublist_code)

text \<open>
  Claim C2, as amended.  Below the maximum retry count, when the response file is found,
  locked and read, and \<open>JSON.parse\<close> rejects its text, no default record is rendered: the
  error is written to the console and nothing else happens before the lock is released
  and the file deleted.  The user sees no notice, the document is not modified, and no
  further check is deferred.
\<close>

theorem malformed_response_abandoned:
  assumes "retryCount < maxRetries"
    and "results_file env = Some text" and "\<not> lock_fails env" and "\<not> read_fails env"
    and "JSON_parse text = Inl e"
  shows "actions (checkResults pf env question retryCount) =
           [Lock rag_results_json, ConsoleError ''Error processing results:'' (Some SyntaxError)]
           @ fst (found_finally env)
       \<and> next_check (checkResults pf env question retryCount) = None
       \<and> notices (actions (checkResults pf env question retryCount)) = []
       \<and> modifications (actions (checkResults pf env question retryCount)) = []
       \<and> timers (actions (checkResults pf env question retryCount)) = []
       \<and> invoked (Unlock rag_results_json) (actions (checkResults pf env question retryCount))"
proof -
  from assms(5) have e: "e = SyntaxError"
    by (auto simp: JSON_parse_def split: file_text.splits)
  have acts: "actions (checkResults pf env question retryCount) =
           [Lock rag_results_json, ConsoleError ''Error processing results:'' (Some SyntaxError)]
           @ fst (found_finally env)"
    and nxt: "next_check (checkResults pf env question retryCount) = None"
    using assms e by (simp_all add: checkResults_def found_try_def Let_def)
  from acts nxt found_finally_cases [of env] show ?thesis
    by (auto simp: notices_def modifications_def timers_def invoked_def)
qed

text \<open>The first check when the response file is not JSON.\<close>

theorem malformed_response_abandoned_witness:
  "actions (checkResults posix malformed_env ''Q'' 0) =
     [Lock rag_results_json, ConsoleError ''Error processing results:'' (Some SyntaxError),
      Unlock rag_results_json, Unlink rag_results_json,
      ConsoleLog ''Results file deleted successfully'']
   \<and> next_check (checkResults posix malformed_env ''Q'' 0) = None
   \<and> notices (actions (checkResults posix malformed_env ''Q'' 0)) = []
   \<and> modifications (actions (checkResults posix malformed_env ''Q'' 0)) = []
   \<and> timers (actions (checkResults posix malformed_env ''Q'' 0)) = []
   \<and> invoked (Unlock rag_results_json) (actions (checkResults posix malformed_env ''Q'' 0))"
proof -
  have 1: "(0::nat) < maxRetries" by (simp add: maxRetries_def)
  have 2: "results_file malformed_env = Some Malformed"
    and 3: "\<not> lock_fails malformed_env" and 4: "\<not> read_fails malformed_env"
    by (simp_all add: malformed_env_def found_env_def)
  have 5: "JSON_parse Malformed = Inl SyntaxError" by (simp add: JSON_parse_def)
  have 6: "fst (found_finally malformed_env) = [Unlock rag_results_json, Unlink rag_results_json,
        ConsoleLog ''Results file deleted successfully'']"
    by (simp add: found_finally_def malformed_env_def found_env_def)
  show ?thesis
    using malformed_response_abandoned [OF 1 2 3 4 5, of posix "''Q''"] 6
    by (simp add: notices_def modifications_def timers_def invoked_def)
qed

text \<open>
  Claim C2 as stated fails: with a response file that is not JSON, the block of the
  default record (placeholder answer, no sources) is never handed to the vault; the
  merge does not take place.
\<close>

theorem malformed_response_counterexample:
  "results_file malformed_env = Some Malformed
   \<and> JSON_parse Malformed = Inl SyntaxError
   \<and> actions (checkResults posix malformed_env ''Q'' 0) =
       [Lock rag_results_json, ConsoleError ''Error processing results:'' (Some SyntaxError),
        Unlock rag_results_json, Unlink rag_results_json,
        ConsoleLog ''Results file deleted successfully'']
   \<and> modifications (actions (checkResults posix malformed_env ''Q'' 0)) = []
   \<and> VaultModify ''Chat\<newline>\<newline>---\<newline>\<newline>## Q\<newline>\<newline>No answer provided\<newline>\<newline>### Sources:\<newline>- No sources found.\<newline>\<newline>---\<newline>\<newline>''
       \<notin> set (actions (checkResults posix malformed_env ''Q'' 0))"
  by (simp add: checkResults_def found_try_def found_finally_def Let_def malformed_env_def
      found_env_def maxRetries_def JSON_parse_def modifications_def)

text \<open>
  Claim C6.  When the response file is absent at every check, the chain of checks started
  by \<open>renderResultsWhenAvailable\<close> ends: it defers 30 checks, with the retry counts 1 to
  30 and 2000 milliseconds each, the check with count 30 shows the one notice of the
  whole run, the failure notice, as its last action, and \<open>vault.modify\<close> is never called.
\<close>

theorem exhaustion_when_file_never_appears:
  assumes "\<forall>n<maxRetries. results_file (envs n) = None"
  shows "notices (renderResultsWhenAvailable pf envs question)
           = [''Failed to get results. Please try again.'']
       \<and> modifications (renderResultsWhenAvailable pf envs question) = []
       \<and> timers (renderResultsWhenAvailable pf envs question)
           = map (\<lambda>n. (n + 1, 2000)) [0..<30]
       \<and> last (renderResultsWhenAvailable pf envs question)
           = Notice ''Failed to get results. Please try again.''"
proof -
  have "renderResultsWhenAvailable pf envs question =
       concat (map (\<lambda>k. [ConsoleLog (''Retrying to fetch results ('' @ decimal (k + 1)
                                      @ ''/'' @ decimal maxRetries @ '')...''),
                         SetTimeout (k + 1) retryInterval]) [0..<maxRetries])
       @ [ConsoleError ''Max retries reached. No results available.'' None,
          Notice ''Failed to get results. Please try again.'']"
    unfolding renderResultsWhenAvailable_def using poll_absent [OF assms, of 0] by simp
  then have eq: "renderResultsWhenAvailable pf envs question =
       concat (map (\<lambda>k. [ConsoleLog (''Retrying to fetch results ('' @ decimal (k + 1)
                                      @ ''/'' @ decimal maxRetries @ '')...''),
                         SetTimeout (k + 1) 2000]) [0..<30])
       @ [ConsoleError ''Max retries reached. No results available.'' None,
          Notice ''Failed to get results. Please try again.'']"
    by (simp only: maxRetries_def retryInterval_def)
  have tail: "notices [ConsoleError ''Max retries reached. No results available.'' None,
          Notice ''Failed to get results. Please try again.'']
        = [''Failed to get results. Please try again.'']"
    "modifications [ConsoleError ''Max retries reached. No results available.'' None,
          Notice ''Failed to get results. Please try again.''] = []"
    "timers [ConsoleError ''Max retries reached. No results available.'' None,
          Notice ''Failed to get results. Please try again.''] = []"
    by (simp_all add: notices_def modifications_def timers_def)
  show ?thesis
    unfolding eq notices_append modifications_append timers_append observers_of_retries tail
    by simp
qed

text \<open>A run in which every check finds no response file.\<close>

theorem exhaustion_when_file_never_appears_witness:
  "notices (renderResultsWhenAvailable posix (\<lambda>n. absent_env) ''Q'')
           = [''Failed to get results. Please try again.'']
       \<and> modifications (renderResultsWhenAvailable posix (\<lambda>n. absent_env) ''Q'') = []
       \<and> timers (renderResultsWhenAvailable posix (\<lambda>n. absent_env) ''Q'')
           = map (\<lambda>n. (n + 1, 2000)) [0..<30]
       \<and> last (renderResultsWhenAvailable posix (\<lambda>n. absent_env) ''Q'')
           = Notice ''Failed to get results. Please try again.''"
proof -
  have "\<forall>n<maxRetries. results_file ((\<lambda>n. absent_env) n) = None"
    by (simp add: absent_env_def found_env_def)
  from exhaustion_when_file_never_appears [OF this] show ?thesis .
qed

section \<open>Properties of the question dispatcher and of the locks\<close>

text \<open>
  Claim C5 fails on the program.  When the request file holds the JSON text \<open>null\<close> and no
  call fails, \<open>JSON.parse\<close> returns \<open>null\<close> without throwing, so the default structure is
  not used; the assignment of the question to \<open>null\<close> throws a TypeError, the user is told
  that the question could not be processed, and the file is left as it was: a read of
  it does not give the submitted question.
\<close>

theorem null_request_file_blocks_submit:
  "file_after (handleQuestionSubmit (calm_env\<lparr>request_file := Some (Json JNull)\<rparr>) ''What is X?'')
     = Some (Json JNull)
   \<and> read_question
        (file_after (handleQuestionSubmit (calm_env\<lparr>request_file := Some (Json JNull)\<rparr>)
           ''What is X?''))
     \<noteq> Some (JString ''What is X?'')
   \<and> submit_actions (handleQuestionSubmit (calm_env\<lparr>request_file := Some (Json JNull)\<rparr>)
        ''What is X?'')
     = [Lock rag_question_json, ConsoleError ''Error handling question:'' (Some TypeError),
        Notice ''Failed to process the question. Please try again.'',
        Unlock rag_question_json]"
  by (simp add: handleQuestionSubmit_def submit_try_def existingData_def Let_def js_set_def
      JSON_parse_def read_question_def calm_env_def)

text \<open>
  Claim C9.  Every run of \<open>handleQuestionSubmit\<close> calls \<open>unlock\<close> on the request file, and
  every run of \<open>checkResults\<close> that finds the response file calls \<open>unlock\<close> on it.  This
  includes the runs that hold no lock: when the unlocked creation of the request file
  throws, \<open>lock\<close> is not even called, and when \<open>lock\<close> rejects, no lock was acquired.
\<close>

theorem unlock_on_every_path:
  "invoked (Unlock rag_question_json) (submit_actions (handleQuestionSubmit env question))
   \<and> (request_file env = None \<and> create_fails env \<longrightarrow>
        \<not> invoked (Lock rag_question_json) (submit_actions (handleQuestionSubmit env question)))
   \<and> (request_lock_fails env \<longrightarrow>
        Lock rag_question_json \<notin> set (submit_actions (handleQuestionSubmit env question)))
   \<and> (retryCount < maxRetries \<and> results_file cenv \<noteq> None \<longrightarrow>
        invoked (Unlock rag_results_json) (actions (checkResults pf cenv q retryCount))
        \<and> (lock_fails cenv \<longrightarrow>
             Lock rag_results_json \<notin> set (actions (checkResults pf cenv q retryCount))))"
proof -
  let ?acts = "submit_actions (handleQuestionSubmit env question)"
  have a: "invoked (Unlock rag_question_json) ?acts"
    by (simp add: handleQuestionSubmit_def invoked_def Let_def)
  have b: "request_file env = None \<and> create_fails env \<longrightarrow>
        \<not> invoked (Lock rag_question_json) ?acts"
    by (auto simp: handleQuestionSubmit_def submit_try_def invoked_def Let_def)
  have c: "request_lock_fails env \<longrightarrow> Lock rag_question_json \<notin> set ?acts"
    by (auto simp: handleQuestionSubmit_def submit_try_def Let_def)
  have d: "retryCount < maxRetries \<and> results_file cenv \<noteq> None \<longrightarrow>
        invoked (Unlock rag_results_json) (actions (checkResults pf cenv q retryCount))"
    using found_finally_cases [of cenv]
    by (auto simp: checkResults_def Let_def invoked_def)
  have e: "retryCount < maxRetries \<and> results_file cenv \<noteq> None \<and> lock_fails cenv \<longrightarrow>
        Lock rag_results_json \<notin> set (actions (checkResults pf cenv q retryCount))"
    using found_finally_cases [of cenv]
    by (auto simp: checkResults_def found_try_def Let_def)
  from a b c d e show ?thesis by blast
qed

text \<open>
  A submission whose creation of the request file throws, and a check whose \<open>lock\<close>
  rejects.
\<close>

theorem unlock_on_every_path_witness:
  "invoked (Unlock rag_question_json)
     (submit_actions (handleQuestionSubmit (calm_env\<lparr>create_fails := True\<rparr>) ''Q''))
   \<and> \<not> invoked (Lock rag_question_json)
     (submit_actions (handleQuestionSubmit (calm_env\<lparr>create_fails := True\<rparr>) ''Q''))
   \<and> invoked (Unlock rag_results_json)
       (actions (checkResults posix (found_env\<lparr>lock_fails := True\<rparr>) ''Q'' 0))
   \<and> Lock rag_results_json
       \<notin> set (actions (checkResults posix (found_env\<lparr>lock_fails := True\<rparr>) ''Q'' 0))"
proof -
  have 1: "request_file (calm_env\<lparr>create_fails := True\<rparr>) = None
      \<and> create_fails (calm_env\<lparr>create_fails := True\<rparr>)"
    by (simp add: calm_env_def)
  have 2: "(0::nat) < maxRetries \<and> results_file (found_env\<lparr>lock_fails := True\<rparr>) \<noteq> None"
    by (simp add: maxRetries_def found_env_def)
  have 3: "lock_fails (found_env\<lparr>lock_fails := True\<rparr>)"
    by simp
  from unlock_on_every_path [of "calm_env\<lparr>create_fails := True\<rparr>" "''Q''" 0
      "found_env\<lparr>lock_fails := True\<rparr>" posix "''Q''"] 1 2 3
  show ?thesis by blast
qed

end
